theory Spec2Isabelle
  imports Complex_Main "HOL-Library.AList" "HOL-Library.Char_ord" "HOL-Library.List_Lexorder"
    "HOL-Library.Multiset"
begin

section \<open>Review preprocessing pipeline (scripts/preprocessing.py)\<close>

text \<open>
  A shallow embedding of \<^verbatim>\<open>ReviewPreprocessor\<close>. The pandas data frame is a list of
  column names together with a list of labelled rows; every pipeline stage is a function on
  the preprocessor state (the frame and the statistics dictionary). An exception that the
  Python code lets escape is a value \<open>Inl e\<close> of the result.
\<close>

subsection \<open>Cells, rows and frames\<close>

record date =
  year :: int
  month :: nat
  day :: nat

record timestamp =
  on_date :: date
  time_of_day :: nat

text \<open>
  A cell is a missing value (\<^verbatim>\<open>NaN\<close>, \<^verbatim>\<open>None\<close>, \<^verbatim>\<open>NaT\<close>), a finite number, an
  infinite float (\<open>Inf True\<close> is \<^verbatim>\<open>inf\<close>, \<open>Inf False\<close> is \<^verbatim>\<open>-inf\<close>), a string, a
  \<^verbatim>\<open>datetime.date\<close> or a pandas timestamp. Finite numbers are the values of \<^verbatim>\<open>int64\<close> and
  \<^verbatim>\<open>float64\<close>, read as rationals. A character is a code point below 256.
\<close>

datatype cell = Null | Num rat | Inf bool | Str string | Date date | Stamp timestamp

text \<open>
  A row is a dictionary from column names to cells, kept as an association list; reading a
  name that the row does not hold gives a missing value.
\<close>

type_synonym row = "(string \<times> cell) list"

definition get :: "row \<Rightarrow> string \<Rightarrow> cell" where
  "get r c = (case map_of r c of Some v \<Rightarrow> v | None \<Rightarrow> Null)"

definition put :: "string \<Rightarrow> cell \<Rightarrow> row \<Rightarrow> row" where
  "put c v r = AList.update c v r"

text \<open>
  A frame is its list of column names and its rows, each with its index label. Only the
  cells under the names in \<open>columns\<close> are part of the frame. Of the dtypes of the columns
  the frame records the one that the pipeline depends on: \<open>text_object\<close> says whether the
  \<^verbatim>\<open>review_text\<close> column has the dtype \<^verbatim>\<open>object\<close>, the dtype with the \<^verbatim>\<open>.str\<close> accessor.
  \<^verbatim>\<open>pd.read_csv\<close> gives that dtype to a column with a string cell and to the columns of a
  file without lines; a column of numbers or of missing values only gets a numeric dtype,
  and keeps it when \<^verbatim>\<open>dropna\<close> removes all its rows.
\<close>

record table =
  columns :: "string list"
  rows :: "(nat \<times> row) list"
  text_object :: bool

datatype error = KeyError string | TypeError | AttributeError | IntCastingNaNError

record statistics =
  original_count :: "nat option"
  missing_before :: "(string \<times> nat) list option"
  rows_removed_missing :: "nat option"
  count_after_missing :: "nat option"
  empty_reviews_removed :: "nat option"
  count_after_cleaning :: "nat option"
  invalid_ratings_removed :: "nat option"
  final_count :: "nat option"

record preprocessor =
  df :: table
  stats :: statistics

text \<open>\<^verbatim>\<open>self.stats.get(key, 0)\<close>, the way \<^verbatim>\<open>generate_report\<close> reads a counter.\<close>

definition stats_get :: "nat option \<Rightarrow> nat" where
  "stats_get v = (case v of Some n \<Rightarrow> n | None \<Rightarrow> 0)"

text \<open>
  The library calls whose results depend on pandas' parsers, on numpy's sort and on Python's
  \<^verbatim>\<open>str\<close> are parameters of the model.
  \<^item> \<open>to_numeric\<close> is \<^verbatim>\<open>pd.to_numeric(errors='coerce')\<close> on a string: a finite number, an
    infinite float, or \<open>None\<close> when the value is coerced to \<^verbatim>\<open>NaN\<close>.
  \<^item> \<open>to_datetime\<close> is \<^verbatim>\<open>pd.to_datetime(errors='coerce')\<close> on a column. It raises
    (\<open>Raises\<close>; pandas 3 does on two UTC offsets in the column), or it returns a column that
    is not a datetime column, on which \<^verbatim>\<open>.dt\<close> raises (\<open>Objects\<close>, with the new value of
    each cell; pandas 2 does on two UTC offsets), or it returns a datetime column
    (\<open>Datetimes\<close>, with the timestamp of each cell, \<open>None\<close> when the cell is coerced to
    \<^verbatim>\<open>NaT\<close>). The function of a result depends on the whole column, as the format that
    pandas infers from the first value does.
  \<^item> \<open>py_str\<close> is \<^verbatim>\<open>str\<close> on a cell that is not a string.
  \<^item> \<open>quicksort\<close> is the sort of \<^verbatim>\<open>sort_values\<close> by one key (numpy's quicksort), which
    may reorder rows with equal keys; what the theorems need of it is a hypothesis there.
\<close>

datatype number = Finite rat | Infinite bool

datatype datetime_result =
  Raises
| Objects "cell \<Rightarrow> cell"
| Datetimes "cell \<Rightarrow> timestamp option"

record pandas =
  to_numeric :: "string \<Rightarrow> number option"
  to_datetime :: "cell list \<Rightarrow> datetime_result"
  py_str :: "cell \<Rightarrow> string"
  quicksort :: "(row \<Rightarrow> row \<Rightarrow> bool) \<Rightarrow> (nat \<times> row) list \<Rightarrow> (nat \<times> row) list"

subsection \<open>Configuration (scripts/config.py)\<close>

definition APP_IDS :: "(string \<times> string) list" where
  "APP_IDS = [(''CBE'', ''com.combanketh.mobilebanking''),
              (''BOA'', ''com.boa.boaMobileBanking''),
              (''Dashen'', ''com.dashen.dashensuperapp'')]"

definition BANK_NAMES :: "(string \<times> string) list" where
  "BANK_NAMES = [(''CBE'', ''Commercial Bank of Ethiopia''),
                 (''BOA'', ''Bank of Abyssinia''),
                 (''Dashen'', ''Dashen Bank'')]"

text \<open>\<^verbatim>\<open>set(APP_IDS.keys()) if APP_IDS else set(BANK_NAMES.keys())\<close>; only the keys are read.\<close>

definition allowed_bank_codes :: "string list" where
  "allowed_bank_codes = (if APP_IDS \<noteq> [] then map fst APP_IDS else map fst BANK_NAMES)"

text \<open>\<^verbatim>\<open>{v: k for k, v in BANK_NAMES.items()}\<close>\<close>

definition inverse_names :: "(string \<times> string) list" where
  "inverse_names = map (\<lambda>(k, v). (v, k)) BANK_NAMES"

subsection \<open>Data frame operations\<close>

definition nrows :: "table \<Rightarrow> nat" where
  "nrows t = length (rows t)"

text \<open>
  \<^verbatim>\<open>df[c] = values\<close>: an existing column is overwritten in place, a new one is appended; the
  values are computed row by row.
\<close>

definition set_column :: "string \<Rightarrow> (row \<Rightarrow> cell) \<Rightarrow> table \<Rightarrow> table" where
  "set_column c f t =
     t\<lparr>columns := (if c \<in> set (columns t) then columns t else columns t @ [c]),
       rows := map (\<lambda>(i, r). (i, put c (f r) r)) (rows t)\<rparr>"

text \<open>\<^verbatim>\<open>df[mask]\<close>: the rows where the mask holds, with their labels.\<close>

definition keep_rows :: "(row \<Rightarrow> bool) \<Rightarrow> table \<Rightarrow> table" where
  "keep_rows p t = t\<lparr>rows := filter (\<lambda>(i, r). p r) (rows t)\<rparr>"

definition dropna :: "string list \<Rightarrow> table \<Rightarrow> table" where
  "dropna subs t = keep_rows (\<lambda>r. list_all (\<lambda>c. get r c \<noteq> Null) subs) t"

definition fillna :: "cell \<Rightarrow> cell \<Rightarrow> cell" where
  "fillna v c = (if c = Null then v else c)"

text \<open>\<^verbatim>\<open>Series.map(dict)\<close>: a value that is not a key of the dictionary becomes missing.\<close>

definition map_dict :: "(string \<times> string) list \<Rightarrow> cell \<Rightarrow> cell" where
  "map_dict d c =
     (case c of Str s \<Rightarrow> (case map_of d s of Some v \<Rightarrow> Str v | None \<Rightarrow> Null) | _ \<Rightarrow> Null)"

definition isin :: "string list \<Rightarrow> cell \<Rightarrow> bool" where
  "isin vs c = (case c of Str s \<Rightarrow> s \<in> set vs | _ \<Rightarrow> False)"

text \<open>\<^verbatim>\<open>list.insert(i, x)\<close> for \<open>i \<ge> 0\<close>: past the end it appends.\<close>

definition list_insert :: "nat \<Rightarrow> 'a \<Rightarrow> 'a list \<Rightarrow> 'a list" where
  "list_insert i x xs = take i xs @ [x] @ drop i xs"

text \<open>\<^verbatim>\<open>df.loc[:, cols]\<close>: a name that is not a column raises \<^verbatim>\<open>KeyError\<close>.\<close>

definition loc_columns :: "string list \<Rightarrow> table \<Rightarrow> error + table" where
  "loc_columns cols t =
     (case filter (\<lambda>c. c \<notin> set (columns t)) cols of
        c # _ \<Rightarrow> Inl (KeyError c)
      | [] \<Rightarrow> Inr (t\<lparr>columns := cols,
                     rows := map (\<lambda>(i, r). (i, map (\<lambda>c. (c, get r c)) cols)) (rows t)\<rparr>))"

definition reset_index :: "table \<Rightarrow> table" where
  "reset_index t = t\<lparr>rows := zip [0 ..< length (rows t)] (map snd (rows t))\<rparr>"

subsection \<open>Ordering of cells and \<^verbatim>\<open>sort_values\<close>\<close>

definition date_le :: "date \<Rightarrow> date \<Rightarrow> bool" where
  "date_le d e =
     (year d < year e \<or> (year d = year e \<and>
        (month d < month e \<or> (month d = month e \<and> day d \<le> day e))))"

definition stamp_le :: "timestamp \<Rightarrow> timestamp \<Rightarrow> bool" where
  "stamp_le a b =
     (if on_date a = on_date b then time_of_day a \<le> time_of_day b
      else date_le (on_date a) (on_date b))"

text \<open>The kinds of values that Python compares with each other; missing values sort last.\<close>

fun kind :: "cell \<Rightarrow> nat" where
  "kind (Num _) = 0"
| "kind (Inf _) = 0"
| "kind (Str _) = 1"
| "kind (Date _) = 2"
| "kind (Stamp _) = 3"
| "kind Null = 4"

text \<open>
  Ascending order of two cells. Within a kind it is the order of Python's \<^verbatim>\<open><\<close>
  (numbers by value, strings by code points, dates by calendar); \<open>sort_values\<close> below never
  compares two present cells of different kinds.
\<close>

fun cell_le :: "cell \<Rightarrow> cell \<Rightarrow> bool" where
  "cell_le (Num a) (Num b) = (a \<le> b)"
| "cell_le (Num a) (Inf q) = q"
| "cell_le (Inf p) (Num b) = (\<not> p)"
| "cell_le (Inf p) (Inf q) = (p \<longrightarrow> q)"
| "cell_le (Str a) (Str b) = (a \<le> b)"
| "cell_le (Date a) (Date b) = date_le a b"
| "cell_le (Stamp a) (Stamp b) = stamp_le a b"
| "cell_le a b = (kind a \<le> kind b)"

text \<open>Descending order; pandas keeps missing values last (\<^verbatim>\<open>na_position='last'\<close>).\<close>

definition cell_ge :: "cell \<Rightarrow> cell \<Rightarrow> bool" where
  "cell_ge a b = (if a = Null \<or> b = Null then b = Null else cell_le b a)"

text \<open>
  The order of two rows under a list of sort keys, each with its \<^verbatim>\<open>ascending\<close> flag:
  the first key on which the rows differ decides.
\<close>

fun keys_le :: "(string \<times> bool) list \<Rightarrow> row \<Rightarrow> row \<Rightarrow> bool" where
  "keys_le [] a b = True"
| "keys_le ((c, asc) # ks) a b =
     (let le = (if asc then cell_le else cell_ge)
      in if le (get a c) (get b c) \<and> le (get b c) (get a c) then keys_le ks a b else le (get a c) (get b c))"

fun insert_row :: "(row \<Rightarrow> row \<Rightarrow> bool) \<Rightarrow> nat \<times> row \<Rightarrow> (nat \<times> row) list \<Rightarrow> (nat \<times> row) list" where
  "insert_row le x [] = [x]"
| "insert_row le x (y # ys) = (if le (snd x) (snd y) then x # y # ys else y # insert_row le x ys)"

definition sort_rows :: "(row \<Rightarrow> row \<Rightarrow> bool) \<Rightarrow> (nat \<times> row) list \<Rightarrow> (nat \<times> row) list" where
  "sort_rows le xs = foldr (insert_row le) xs []"

text \<open>A key column is sortable when its present cells are all of one kind.\<close>

definition sortable :: "table \<Rightarrow> string \<Rightarrow> bool" where
  "sortable t c =
     (length (remdups (map kind (filter (\<lambda>v. v \<noteq> Null) (map (\<lambda>(i, r). get r c) (rows t))))) \<le> 1)"

text \<open>
  \<^verbatim>\<open>df.sort_values(by, ascending=flags)\<close>. Values of different kinds in one key column
  raise \<^verbatim>\<open>TypeError\<close>. With several keys pandas sorts stably (rows with equal keys keep
  their order), which is the insertion sort \<open>sort_rows\<close>; with one key it calls the
  quicksort of the library.
\<close>

definition sort_values :: "pandas \<Rightarrow> string list \<Rightarrow> bool list \<Rightarrow> table \<Rightarrow> error + table" where
  "sort_values P keys flags t =
     (if list_all (sortable t) keys
      then Inr (t\<lparr>rows := (if length keys = 1
                              then quicksort P (keys_le (zip keys flags)) (rows t)
                              else sort_rows (keys_le (zip keys flags)) (rows t))\<rparr>)
      else Inl TypeError)"

subsection \<open>Cell-level library functions\<close>

text \<open>Python's \<^verbatim>\<open>str.isspace\<close>, which is also what \<^verbatim>\<open>\s\<close> matches, on code points below 256.\<close>

definition is_space :: "char \<Rightarrow> bool" where
  "is_space c = (of_char c \<in> set [9, 10, 11, 12, 13, 28, 29, 30, 31, 32, 133, 160 :: nat])"

text \<open>\<^verbatim>\<open>re.sub(r'\s+', ' ', s)\<close>: every maximal run of whitespace becomes one space.\<close>

function collapse_ws :: "string \<Rightarrow> string" where
  "collapse_ws [] = []"
| "collapse_ws (c # cs) =
     (if is_space c then CHR '' '' # collapse_ws (dropWhile is_space cs)
      else c # collapse_ws cs)"
  by pat_completeness auto
termination
  by (relation "measure length") (auto simp: less_Suc_eq_le length_dropWhile_le)

definition strip :: "string \<Rightarrow> string" where
  "strip s = rev (dropWhile is_space (rev (dropWhile is_space s)))"

text \<open>\<^verbatim>\<open>Series.str.len()\<close>: missing for a cell that is not a string.\<close>

definition str_len :: "cell \<Rightarrow> cell" where
  "str_len c = (case c of Str s \<Rightarrow> Num (of_nat (length s)) | _ \<Rightarrow> Null)"

text \<open>Comparisons of a cell with a number; they are false on a cell that is not a number.\<close>

definition lt_num :: "cell \<Rightarrow> rat \<Rightarrow> bool" where
  "lt_num c k = (case c of Num r \<Rightarrow> r < k | Inf p \<Rightarrow> \<not> p | _ \<Rightarrow> False)"

definition gt_num :: "cell \<Rightarrow> rat \<Rightarrow> bool" where
  "gt_num c k = (case c of Num r \<Rightarrow> r > k | Inf p \<Rightarrow> p | _ \<Rightarrow> False)"

definition le_num :: "cell \<Rightarrow> rat \<Rightarrow> bool" where
  "le_num c k = (case c of Num r \<Rightarrow> r \<le> k | Inf p \<Rightarrow> \<not> p | _ \<Rightarrow> False)"

definition ge_num :: "cell \<Rightarrow> rat \<Rightarrow> bool" where
  "ge_num c k = (case c of Num r \<Rightarrow> r \<ge> k | Inf p \<Rightarrow> p | _ \<Rightarrow> False)"

text \<open>
  \<^verbatim>\<open>pd.to_numeric(errors='coerce')\<close> on one cell: a number, an infinite float or missing.
\<close>

definition pd_to_numeric :: "pandas \<Rightarrow> cell \<Rightarrow> cell" where
  "pd_to_numeric P c =
     (case c of
        Null \<Rightarrow> Null
      | Num r \<Rightarrow> Num r
      | Inf p \<Rightarrow> Inf p
      | Str s \<Rightarrow> (case to_numeric P s of
                   Some (Finite r) \<Rightarrow> Num r
                 | Some (Infinite p) \<Rightarrow> Inf p
                 | None \<Rightarrow> Null)
      | _ \<Rightarrow> Null)"

text \<open>
  \<^verbatim>\<open>Series.astype(int)\<close> raises \<^verbatim>\<open>IntCastingNaNError\<close> when a value of the column is
  missing or infinite; otherwise every float is truncated toward zero.
\<close>

definition non_finite :: "cell \<Rightarrow> bool" where
  "non_finite c = (case c of Null \<Rightarrow> True | Inf p \<Rightarrow> True | _ \<Rightarrow> False)"

definition trunc :: "rat \<Rightarrow> int" where
  "trunc r = (if 0 \<le> r then \<lfloor>r\<rfloor> else \<lceil>r\<rceil>)"

definition astype_int :: "cell \<Rightarrow> cell" where
  "astype_int c = (case c of Num r \<Rightarrow> Num (of_int (trunc r)) | _ \<Rightarrow> c)"

definition midnight :: "date \<Rightarrow> timestamp" where
  "midnight d = \<lparr>on_date = d, time_of_day = 0\<rparr>"

text \<open>
  The cell of a datetime column that \<^verbatim>\<open>pd.to_datetime(errors='coerce')\<close> returns, from the
  function of the result: a timestamp or missing.
\<close>

definition pd_to_datetime :: "(cell \<Rightarrow> timestamp option) \<Rightarrow> cell \<Rightarrow> cell" where
  "pd_to_datetime f c =
     (case c of
        Null \<Rightarrow> Null
      | _ \<Rightarrow> (case f c of Some ts \<Rightarrow> Stamp ts | None \<Rightarrow> Null))"

text \<open>\<^verbatim>\<open>pd.to_datetime\<close> on a \<^verbatim>\<open>datetime.date\<close>: the timestamp of its midnight.\<close>

definition date_to_datetime :: "cell \<Rightarrow> cell" where
  "date_to_datetime c = (case c of Date d \<Rightarrow> Stamp (midnight d) | _ \<Rightarrow> Null)"

text \<open>The accessors \<^verbatim>\<open>.dt.date\<close>, \<^verbatim>\<open>.dt.year\<close> and \<^verbatim>\<open>.dt.month\<close> of a datetime column.\<close>

definition dt_date :: "cell \<Rightarrow> cell" where
  "dt_date c = (case c of Stamp ts \<Rightarrow> Date (on_date ts) | _ \<Rightarrow> Null)"

definition dt_year :: "cell \<Rightarrow> cell" where
  "dt_year c = (case c of Stamp ts \<Rightarrow> Num (of_int (year (on_date ts))) | _ \<Rightarrow> Null)"

definition dt_month :: "cell \<Rightarrow> cell" where
  "dt_month c = (case c of Stamp ts \<Rightarrow> Num (of_nat (month (on_date ts))) | _ \<Rightarrow> Null)"

definition column_values :: "table \<Rightarrow> string \<Rightarrow> cell list" where
  "column_values t c = map (\<lambda>(i, r). get r c) (rows t)"

subsection \<open>The stages of \<^verbatim>\<open>ReviewPreprocessor\<close>\<close>

text \<open>
  \<^verbatim>\<open>load_data\<close>: the argument is what \<^verbatim>\<open>pd.read_csv\<close> returned, \<open>None\<close> when it raised.
  The statistics start empty.
\<close>

definition load_data :: "table option \<Rightarrow> preprocessor option" where
  "load_data inp =
     (case inp of
        None \<Rightarrow> None
      | Some t \<Rightarrow> Some \<lparr>df = t,
          stats = \<lparr>original_count = Some (nrows t), missing_before = None,
                   rows_removed_missing = None, count_after_missing = None,
                   empty_reviews_removed = None, count_after_cleaning = None,
                   invalid_ratings_removed = None, final_count = None\<rparr>\<rparr>)"

definition check_missing_data :: "preprocessor \<Rightarrow> preprocessor" where
  "check_missing_data s =
     s\<lparr>stats := (stats s)\<lparr>missing_before :=
          Some (map (\<lambda>c. (c, length (filter (\<lambda>v. v = Null) (column_values (df s) c))))
                    (columns (df s)))\<rparr>\<rparr>"

text \<open>
  \<^verbatim>\<open>handle_missing_values\<close>, in the three blocks of the method. First block: when only
  \<^verbatim>\<open>bank_name\<close> exists, \<^verbatim>\<open>bank_code\<close> is looked up in the inverse name table
  (\<^verbatim>\<open>self.df.get('bank_code', np.nan)\<close> is \<^verbatim>\<open>NaN\<close> there, so the \<^verbatim>\<open>fillna\<close> fills nothing).
\<close>

definition derive_bank_code :: "table \<Rightarrow> table" where
  "derive_bank_code d0 =
     (if ''bank_code'' \<notin> set (columns d0) \<and> ''bank_name'' \<in> set (columns d0)
      then set_column ''bank_code''
             (\<lambda>r. fillna Null (map_dict inverse_names (get r ''bank_name''))) d0
      else d0)"

definition critical_columns :: "table \<Rightarrow> string list" where
  "critical_columns d = filter (\<lambda>c. c \<in> set (columns d)) [''review_text'', ''rating'', ''bank_code'']"

definition fill_optional :: "table \<Rightarrow> table" where
  "fill_optional d2 =
     (let d3 = (if ''user_name'' \<in> set (columns d2)
                then set_column ''user_name''
                       (\<lambda>r. fillna (Str ''Anonymous'') (get r ''user_name'')) d2
                else set_column ''user_name'' (\<lambda>r. Str ''Anonymous'') d2);
          d4 = (if ''thumbs_up'' \<in> set (columns d3)
                then set_column ''thumbs_up'' (\<lambda>r. fillna (Num 0) (get r ''thumbs_up'')) d3
                else set_column ''thumbs_up'' (\<lambda>r. Num 0) d3)
      in if ''reply_content'' \<in> set (columns d4)
         then set_column ''reply_content'' (\<lambda>r. fillna (Str '''') (get r ''reply_content'')) d4
         else set_column ''reply_content'' (\<lambda>r. Str '''') d4)"

definition handle_missing_values :: "preprocessor \<Rightarrow> preprocessor" where
  "handle_missing_values s =
     (let d1 = derive_bank_code (df s);
          critical_cols = critical_columns d1;
          before_count = nrows d1;
          d2 = (if critical_cols \<noteq> [] then dropna critical_cols d1 else d1);
          removed = before_count - nrows d2;
          d5 = fill_optional d2
      in s\<lparr>df := d5,
           stats := (stats s)\<lparr>rows_removed_missing := Some removed,
                               count_after_missing := Some (nrows d5)\<rparr>\<rparr>)"

text \<open>
  \<^verbatim>\<open>normalize_dates\<close>. The \<^verbatim>\<open>try\<close> block ends at the first statement that raises, and
  the \<^verbatim>\<open>except\<close> branch only prints: when \<^verbatim>\<open>pd.to_datetime\<close> raises, the frame is as it
  was; when it returns a column that is not a datetime column, the column is assigned and
  \<^verbatim>\<open>dropna\<close> runs before \<^verbatim>\<open>.dt\<close> raises.
\<close>

definition normalize_dates :: "pandas \<Rightarrow> preprocessor \<Rightarrow> preprocessor" where
  "normalize_dates P s =
     (if ''review_date'' \<notin> set (columns (df s)) then s
      else
        let d0 = df s
        in case to_datetime P (column_values d0 ''review_date'') of
             Raises \<Rightarrow> s
           | Objects g \<Rightarrow>
               let d1 = set_column ''review_date'' (\<lambda>r. g (get r ''review_date'')) d0;
                   d2 = dropna [''review_date''] d1
               in s\<lparr>df := d2\<rparr>
           | Datetimes f \<Rightarrow>
               let d1 = set_column ''review_date''
                          (\<lambda>r. pd_to_datetime f (get r ''review_date'')) d0;
                   d2 = dropna [''review_date''] d1;
                   d3 = set_column ''review_date'' (\<lambda>r. dt_date (get r ''review_date'')) d2;
                   d4 = set_column ''review_year''
                          (\<lambda>r. dt_year (date_to_datetime (get r ''review_date''))) d3;
                   d5 = set_column ''review_month''
                          (\<lambda>r. dt_month (date_to_datetime (get r ''review_date''))) d4
               in s\<lparr>df := d5\<rparr>)"

text \<open>The inner function \<^verbatim>\<open>clean_review_text\<close> of \<^verbatim>\<open>clean_text\<close>.\<close>

definition clean_review_text :: "pandas \<Rightarrow> cell \<Rightarrow> string" where
  "clean_review_text P text =
     (if text = Null \<or> text = Str '''' then ''''
      else let s = (case text of Str s \<Rightarrow> s | _ \<Rightarrow> py_str P text)
           in strip (collapse_ws s))"

text \<open>
  \<^verbatim>\<open>clean_text\<close> reads \<^verbatim>\<open>self.df['review_text']\<close> without a check of the column, which
  raises \<^verbatim>\<open>KeyError\<close> when the column does not exist. \<^verbatim>\<open>apply\<close> returns a column of
  strings when the frame has rows and a column of the old dtype when it has none; on a
  column that has not the dtype \<^verbatim>\<open>object\<close> the accessor \<^verbatim>\<open>.str\<close> raises
  \<^verbatim>\<open>AttributeError\<close>.
\<close>

definition clean_text :: "pandas \<Rightarrow> preprocessor \<Rightarrow> error + preprocessor" where
  "clean_text P s =
     (if ''review_text'' \<notin> set (columns (df s)) then Inl (KeyError ''review_text'')
      else
        let d1 = (set_column ''review_text''
                    (\<lambda>r. Str (clean_review_text P (get r ''review_text''))) (df s))
                 \<lparr>text_object := (text_object (df s) \<or> rows (df s) \<noteq> [])\<rparr>
        in if \<not> text_object d1 then Inl AttributeError
           else
             let before_count = nrows d1;
                 d2 = keep_rows (\<lambda>r. gt_num (str_len (get r ''review_text'')) 0) d1;
                 removed = before_count - nrows d2;
                 d3 = set_column ''text_length'' (\<lambda>r. str_len (get r ''review_text'')) d2
             in Inr (s\<lparr>df := d3,
                       stats := (stats s)\<lparr>empty_reviews_removed := Some removed,
                                           count_after_cleaning := Some (nrows d3)\<rparr>\<rparr>))"

text \<open>
  \<^verbatim>\<open>validate_ratings\<close>. The first statement is
  \<^verbatim>\<open>pd.to_numeric(..., errors='coerce').fillna(0).astype(int)\<close>, and \<^verbatim>\<open>astype\<close> raises on
  an infinite rating.
\<close>

definition validate_ratings :: "pandas \<Rightarrow> preprocessor \<Rightarrow> error + preprocessor" where
  "validate_ratings P s =
     (if ''rating'' \<notin> set (columns (df s)) then Inr s
      else
        let filled = map (\<lambda>(i, r). fillna (Num 0) (pd_to_numeric P (get r ''rating''))) (rows (df s))
        in if list_ex non_finite filled then Inl IntCastingNaNError
           else
             let d1 = set_column ''rating''
                        (\<lambda>r. astype_int (fillna (Num 0) (pd_to_numeric P (get r ''rating'')))) (df s);
                 invalid = keep_rows (\<lambda>r. lt_num (get r ''rating'') 1
                                          \<or> gt_num (get r ''rating'') 5) d1;
                 d2 = (if nrows invalid > 0
                       then keep_rows (\<lambda>r. ge_num (get r ''rating'') 1
                                           \<and> le_num (get r ''rating'') 5) d1
                       else d1)
             in Inr (s\<lparr>df := d2,
                       stats := (stats s)\<lparr>invalid_ratings_removed := Some (nrows invalid)\<rparr>\<rparr>))"

text \<open>
  \<^verbatim>\<open>prepare_final_output\<close>, block by block. The output columns are the desired and the extra
  names that are columns of the frame; a derived \<^verbatim>\<open>bank_name\<close> is put in with
  \<^verbatim>\<open>output_columns.insert(6, 'bank_name')\<close>.
\<close>

definition output_columns :: "table \<Rightarrow> string list" where
  "output_columns d0 =
     (let desired = [''review_id'', ''review_text'', ''rating'', ''review_date'', ''bank_code'',
                     ''bank_name'', ''source''];
          extras = filter (\<lambda>c. c \<in> set (columns d0))
                     [''user_name'', ''thumbs_up'', ''text_length'', ''review_year'', ''review_month''];
          cols = filter (\<lambda>c. c \<in> set (columns d0)) (desired @ extras)
      in if ''bank_name'' \<notin> set (columns d0) \<and> ''bank_code'' \<in> set (columns d0)
            \<and> ''bank_name'' \<notin> set cols
         then list_insert 6 ''bank_name'' cols
         else cols)"

definition derive_bank_name :: "table \<Rightarrow> table" where
  "derive_bank_name d0 =
     (if ''bank_name'' \<notin> set (columns d0) \<and> ''bank_code'' \<in> set (columns d0)
      then set_column ''bank_name''
             (\<lambda>r. fillna (get r ''bank_code'') (map_dict BANK_NAMES (get r ''bank_code''))) d0
      else d0)"

definition keep_allowed_banks :: "table \<Rightarrow> table" where
  "keep_allowed_banks d1 =
     (if ''bank_code'' \<in> set (columns d1)
      then keep_rows (\<lambda>r. isin allowed_bank_codes (get r ''bank_code'')) d1
      else d1)"

text \<open>The loop that creates a missing output column.\<close>

definition ensure_columns :: "string list \<Rightarrow> table \<Rightarrow> table" where
  "ensure_columns cols t =
     fold (\<lambda>col d. if col \<notin> set (columns d) then set_column col (\<lambda>r. Null) d else d) cols t"

definition sort_output :: "pandas \<Rightarrow> table \<Rightarrow> error + table" where
  "sort_output P d4 =
     (let sort_cols = filter (\<lambda>c. c \<in> set (columns d4)) [''bank_code'', ''review_date'']
      in if sort_cols \<noteq> []
         then sort_values P sort_cols
                (if sort_cols = [''bank_code'', ''review_date''] then [True, False]
                 else map (\<lambda>c. True) sort_cols) d4
         else Inr d4)"

definition prepare_final_output :: "pandas \<Rightarrow> preprocessor \<Rightarrow> error + preprocessor" where
  "prepare_final_output P s =
     (let d0 = df s;
          out = output_columns d0;
          d1 = derive_bank_name d0;
          d2 = keep_allowed_banks d1;
          d3 = ensure_columns out d2
      in case loc_columns out d3 of
           Inl e \<Rightarrow> Inl e
         | Inr d4 \<Rightarrow>
             (case sort_output P d4 of
                Inl e \<Rightarrow> Inl e
              | Inr d5 \<Rightarrow> Inr (s\<lparr>df := reset_index d5\<rparr>)))"

text \<open>
  \<^verbatim>\<open>save_data\<close>: whether the file system accepts the write is an input; a failed write is
  caught and reported as \<open>False\<close>.
\<close>

definition save_data :: "bool \<Rightarrow> preprocessor \<Rightarrow> bool \<times> preprocessor" where
  "save_data writable s =
     (if writable
      then (True, s\<lparr>stats := (stats s)\<lparr>final_count := Some (nrows (df s))\<rparr>\<rparr>)
      else (False, s))"

text \<open>
  \<^verbatim>\<open>process\<close>. The result is \<open>Inl e\<close> when an exception leaves the method, otherwise the
  returned boolean with the preprocessor (no preprocessor state when loading failed).
  \<^verbatim>\<open>generate_report\<close> only prints.
\<close>

definition process :: "pandas \<Rightarrow> table option \<Rightarrow> bool \<Rightarrow> error + (bool \<times> preprocessor option)" where
  "process P inp writable =
     (case load_data inp of
        None \<Rightarrow> Inr (False, None)
      | Some s0 \<Rightarrow>
          let s1 = check_missing_data s0;
              s2 = handle_missing_values s1;
              s3 = normalize_dates P s2
          in case clean_text P s3 of
               Inl e \<Rightarrow> Inl e
             | Inr s4 \<Rightarrow>
                 (case validate_ratings P s4 of
                    Inl e \<Rightarrow> Inl e
                  | Inr s5 \<Rightarrow>
                      (case prepare_final_output P s5 of
                         Inl e \<Rightarrow> Inl e
                       | Inr s6 \<Rightarrow>
                           (case save_data writable s6 of
                              (True, s7) \<Rightarrow> Inr (True, Some s7)
                            | (False, s7) \<Rightarrow> Inr (False, Some s7)))))"

subsection \<open>Sample inputs\<close>

text \<open>
  The frame that \<^verbatim>\<open>pd.read_csv\<close> returns for a header and the cells of each line, with
  the dtype of the \<^verbatim>\<open>review_text\<close> column that it infers.
\<close>

definition is_str :: "cell \<Rightarrow> bool" where
  "is_str c = (case c of Str s \<Rightarrow> True | _ \<Rightarrow> False)"

definition read_csv :: "string list \<Rightarrow> cell list list \<Rightarrow> table" where
  "read_csv header lines =
     (let rs = zip [0 ..< length lines] (map (\<lambda>vs. zip header vs) lines)
      in \<lparr>columns = header, rows = rs,
          text_object = (rs = [] \<or> list_ex (\<lambda>(i, r). is_str (get r ''review_text'')) rs)\<rparr>)"

text \<open>
  A small instance of the library parameters. The parsers are lookup tables; the dates of
  the table have one format, as pandas infers one format for a column. On a column with
  the two UTC offsets of the table \<open>to_datetime\<close> returns the parsed values as a column
  that is not a datetime column. The one-key sort is the insertion sort, which is what
  numpy's quicksort does on a short column.
\<close>

definition sample_dates :: "(string \<times> timestamp) list" where
  "sample_dates =
     [(''2024-01-05 10:30:00'',
       \<lparr>on_date = \<lparr>year = 2024, month = 1, day = 5\<rparr>, time_of_day = 37800\<rparr>),
      (''2024-02-01 08:15:00'',
       \<lparr>on_date = \<lparr>year = 2024, month = 2, day = 1\<rparr>, time_of_day = 29700\<rparr>),
      (''2024-01-05 10:30:00+03:00'',
       \<lparr>on_date = \<lparr>year = 2024, month = 1, day = 5\<rparr>, time_of_day = 37800\<rparr>),
      (''2024-01-06 09:00:00+00:00'',
       \<lparr>on_date = \<lparr>year = 2024, month = 1, day = 6\<rparr>, time_of_day = 32400\<rparr>)]"

definition sample_date :: "cell \<Rightarrow> timestamp option" where
  "sample_date c = (case c of Str s \<Rightarrow> map_of sample_dates s | _ \<Rightarrow> None)"

definition sample_pandas :: pandas where
  "sample_pandas =
     \<lparr>to_numeric = map_of [(''5'', Finite 5), (''3'', Finite 3), (''7'', Finite 7),
                           (''4.7'', Finite (47 / 10)), (''inf'', Infinite True)],
      to_datetime = (\<lambda>col.
         if Str ''2024-01-05 10:30:00+03:00'' \<in> set col \<and> Str ''2024-01-06 09:00:00+00:00'' \<in> set col
         then Objects (\<lambda>c. case sample_date c of Some ts \<Rightarrow> Stamp ts | None \<Rightarrow> Null)
         else Datetimes sample_date),
      py_str = (\<lambda>c. ''?''),
      quicksort = sort_rows\<rparr>"

text \<open>The table and the statistics of a successful run, or nothing.\<close>

definition result_table :: "error + (bool \<times> preprocessor option) \<Rightarrow> table option" where
  "result_table x = (case x of Inr (True, Some s) \<Rightarrow> Some (df s) | _ \<Rightarrow> None)"

definition result_stats :: "error + (bool \<times> preprocessor option) \<Rightarrow> statistics option" where
  "result_stats x = (case x of Inr (True, Some s) \<Rightarrow> Some (stats s) | _ \<Rightarrow> None)"

definition fresh_stats :: "nat \<Rightarrow> statistics" where
  "fresh_stats n =
     \<lparr>original_count = Some n, missing_before = None,
      rows_removed_missing = None, count_after_missing = None,
      empty_reviews_removed = None, count_after_cleaning = None,
      invalid_ratings_removed = None, final_count = None\<rparr>"




definition missing_state :: preprocessor where
  "missing_state =
     \<lparr>df = read_csv [''review_text'', ''rating'', ''bank_name'', ''user_name'']
             [[Str ''good'', Str ''5'', Str ''Bank of Abyssinia'', Null],
              [Null, Str ''3'', Str ''Dashen Bank'', Str ''abe''],
              [Str ''fine'', Str ''3'', Str ''Unknown Bank'', Str ''kal''],
              [Str ''ok'', Str ''3'', Str ''Dashen Bank'', Str ''sam'']],
      stats = fresh_stats 4\<rparr>"

definition bank_name_only_state :: preprocessor where
  "bank_name_only_state =
     \<lparr>df = read_csv [''review_id'', ''bank_name'']
             [[Str ''a1'', Str ''Unknown Bank''], [Str ''a2'', Str ''Dashen Bank'']],
      stats = fresh_stats 2\<rparr>"

definition dates_state :: preprocessor where
  "dates_state =
     \<lparr>df = read_csv [''review_text'', ''review_date'']
             [[Str ''good'', Str ''2024-01-05 10:30:00''],
              [Str ''bad'', Str ''yesterday''],
              [Str ''fine'', Str ''2024-02-01 08:15:00'']],
      stats = fresh_stats 3\<rparr>"

definition offsets_state :: preprocessor where
  "offsets_state =
     \<lparr>df = read_csv [''review_text'', ''review_date'']
             [[Str ''good'', Str ''2024-01-05 10:30:00+03:00''],
              [Str ''bad'', Str ''yesterday''],
              [Str ''fine'', Str ''2024-01-06 09:00:00+00:00'']],
      stats = fresh_stats 3\<rparr>"

text \<open>The example row of the specification, in a frame without the other columns.\<close>

definition spec_example :: table where
  "spec_example = read_csv [''review_text'', ''rating'', ''bank_code'']
                    [[Str ''  Great   app!! '', Str ''5'', Str ''CBE'']]"

definition no_text_table :: table where
  "no_text_table = read_csv [''rating'', ''bank_code''] [[Str ''5'', Str ''CBE'']]"

definition unknown_bank_table :: table where
  "unknown_bank_table = read_csv [''review_text'', ''rating'', ''bank_code'']
                          [[Str ''ok'', Str ''5'', Str ''XYZ'']]"

definition noncanonical_table :: table where
  "noncanonical_table = read_csv [''review_text'', ''rating'', ''bank_code'', ''bank_name'']
                          [[Str ''ok'', Str ''5'', Str ''CBE'', Str ''cbe bank'']]"

text \<open>The frames of the first and of the second run on the example row.\<close>

definition first_output :: table where
  "first_output =
     \<lparr>columns = [''review_text'', ''rating'', ''bank_code'', ''user_name'', ''thumbs_up'',
                 ''text_length'', ''bank_name''],
      rows = [(0, [(''review_text'', Str ''Great app!!''), (''rating'', Num 5),
                   (''bank_code'', Str ''CBE''), (''user_name'', Str ''Anonymous''),
                   (''thumbs_up'', Num 0), (''text_length'', Num 11),
                   (''bank_name'', Str ''Commercial Bank of Ethiopia'')])],
      text_object = True\<rparr>"

definition second_output :: table where
  "second_output =
     \<lparr>columns = [''review_text'', ''rating'', ''bank_code'', ''bank_name'', ''user_name'',
                 ''thumbs_up'', ''text_length''],
      rows = [(0, [(''review_text'', Str ''Great app!!''), (''rating'', Num 5),
                   (''bank_code'', Str ''CBE''),
                   (''bank_name'', Str ''Commercial Bank of Ethiopia''),
                   (''user_name'', Str ''Anonymous''), (''thumbs_up'', Num 0),
                   (''text_length'', Num 11)])],
      text_object = True\<rparr>"

definition unknown_bank_stats :: statistics where
  "unknown_bank_stats =
     \<lparr>original_count = Some 1,
      missing_before = Some [(''review_text'', 0), (''rating'', 0), (''bank_code'', 0)],
      rows_removed_missing = Some 0, count_after_missing = Some 1,
      empty_reviews_removed = Some 0, count_after_cleaning = Some 1,
      invalid_ratings_removed = Some 0, final_count = Some 0\<rparr>"

definition noncanonical_output :: table where
  "noncanonical_output =
     \<lparr>columns = [''review_text'', ''rating'', ''bank_code'', ''bank_name'', ''user_name'',
                 ''thumbs_up'', ''text_length''],
      rows = [(0, [(''review_text'', Str ''ok''), (''rating'', Num 5),
                   (''bank_code'', Str ''CBE''), (''bank_name'', Str ''cbe bank''),
                   (''user_name'', Str ''Anonymous''), (''thumbs_up'', Num 0),
                   (''text_length'', Num 2)])],
      text_object = True\<rparr>"

section \<open>Properties\<close>

subsection \<open>Basic facts about frames\<close>

lemma get_put: "get (put c v r) c' = (if c' = c then v else get r c')"
  by (simp add: get_def put_def update_conv')

lemma columns_set_column:
  "columns (set_column c f t) = (if c \<in> set (columns t) then columns t else columns t @ [c])"
  by (simp add: set_column_def)

lemma rows_set_column: "rows (set_column c f t) = map (\<lambda>(i, r). (i, put c (f r) r)) (rows t)"
  by (simp add: set_column_def)

lemma text_object_set_column: "text_object (set_column c f t) = text_object t"
  by (simp add: set_column_def)

lemma rows_keep_rows: "rows (keep_rows p t) = filter (\<lambda>(i, r). p r) (rows t)"
  by (simp add: keep_rows_def)

lemma columns_keep_rows: "columns (keep_rows p t) = columns t"
  by (simp add: keep_rows_def)


subsection \<open>Rating validation\<close>










subsection \<open>Evaluation on the sample inputs\<close>

lemma trunc_numeral: "trunc (numeral n) = numeral n"
  by (simp add: trunc_def)

lemma trunc_zero: "trunc 0 = 0"
  by (simp add: trunc_def)

lemma trunc_one: "trunc 1 = 1"
  by (simp add: trunc_def)

lemma trunc_sample: "trunc (47 / 10) = 4"
  by (simp add: trunc_def floor_eq_iff)

lemmas eval_defs =
  set_column_def keep_rows_def dropna_def nrows_def loc_columns_def ensure_columns_def
  list_insert_def sort_values_def reset_index_def column_values_def sort_rows_def sortable_def
  get_def put_def fillna_def map_dict_def isin_def str_len_def
  lt_num_def gt_num_def le_num_def ge_num_def non_finite_def pd_to_numeric_def
  astype_int_def pd_to_datetime_def date_to_datetime_def dt_date_def dt_year_def dt_month_def
  midnight_def clean_review_text_def strip_def is_space_def cell_ge_def date_le_def stamp_le_def
  APP_IDS_def BANK_NAMES_def allowed_bank_codes_def inverse_names_def
  derive_bank_code_def critical_columns_def fill_optional_def
  output_columns_def derive_bank_name_def keep_allowed_banks_def sort_output_def
  read_csv_def is_str_def sample_pandas_def sample_date_def sample_dates_def
  result_table_def fresh_stats_def Let_def
  trunc_numeral trunc_zero trunc_one trunc_sample







subsection \<open>Runs of the pipeline on the sample frames\<close>

lemmas run_defs = process_def load_data_def check_missing_data_def handle_missing_values_def
  normalize_dates_def clean_text_def validate_ratings_def prepare_final_output_def save_data_def

lemma spec_example_run:
  "result_table (process sample_pandas (Some spec_example) True) = Some first_output"
  by (simp add: spec_example_def first_output_def run_defs eval_defs cong: let_weak_cong)

lemma first_output_run:
  "result_table (process sample_pandas (Some first_output) True) = Some second_output"
  by (simp add: first_output_def second_output_def run_defs eval_defs cong: let_weak_cong)

lemma no_text_run:
  "process sample_pandas (Some no_text_table) True = Inl (KeyError ''review_text'')"
  by (simp add: no_text_table_def run_defs eval_defs cong: let_weak_cong)

lemma unknown_bank_run:
  "result_stats (process sample_pandas (Some unknown_bank_table) True) = Some unknown_bank_stats"
  by (simp add: unknown_bank_table_def unknown_bank_stats_def result_stats_def run_defs eval_defs
      cong: let_weak_cong)

lemma noncanonical_run:
  "result_table (process sample_pandas (Some noncanonical_table) True) = Some noncanonical_output"
  by (simp add: noncanonical_table_def noncanonical_output_def run_defs eval_defs
      cong: let_weak_cong)

text \<open>
  The loop that is to create the missing output columns adds nothing when every output
  column exists, and the output columns are chosen among the existing columns.
\<close>

lemma ensure_columns_present:
  "set cols \<subseteq> set (columns t) \<Longrightarrow> ensure_columns cols t = t"
  unfolding ensure_columns_def by (induction cols) simp_all

text \<open>
  Claim C2 (the code does not do this). The final frame for the example row of the
  specification, whose input has the columns \<^verbatim>\<open>review_text\<close>, \<^verbatim>\<open>rating\<close> and
  \<^verbatim>\<open>bank_code\<close> only, has no \<^verbatim>\<open>review_id\<close>, no \<^verbatim>\<open>review_date\<close> and no \<^verbatim>\<open>source\<close>
  column: the output columns are filtered by presence before the loop that would create the
  missing ones runs.
\<close>

theorem required_columns_not_created:
  "result_table (process sample_pandas (Some spec_example) True) = Some first_output
   \<and> ''review_id'' \<notin> set (columns first_output)
   \<and> ''review_date'' \<notin> set (columns first_output)
   \<and> ''source'' \<notin> set (columns first_output)"
  using spec_example_run by (simp add: first_output_def)

text \<open>
  Claim C3 (the code does not do this). On a frame without a \<^verbatim>\<open>review_text\<close> column
  \<^verbatim>\<open>process\<close> does not return a boolean: the \<^verbatim>\<open>KeyError\<close> of \<^verbatim>\<open>clean_text\<close> leaves it.
\<close>

theorem process_raises_without_review_text:
  "''review_text'' \<notin> set (columns no_text_table)
   \<and> process sample_pandas (Some no_text_table) True = Inl (KeyError ''review_text'')"
  using no_text_run by (simp add: no_text_table_def read_csv_def Let_def)

text \<open>
  Claim C5 (the code does not do this). The second run on the frame of the first run moves
  the \<^verbatim>\<open>bank_name\<close> column: the first run appends the derived column with
  \<^verbatim>\<open>insert(6, ...)\<close>, the second run finds it present and puts it in its place in the list of
  desired columns.
\<close>

theorem second_run_reorders_columns:
  "result_table (process sample_pandas (Some spec_example) True) = Some first_output
   \<and> result_table (process sample_pandas (Some first_output) True) = Some second_output
   \<and> columns second_output \<noteq> columns first_output"
  using spec_example_run first_output_run by (simp add: first_output_def second_output_def)

subsection \<open>Missing values\<close>

lemma labels_set_column: "map fst (rows (set_column c f t)) = map fst (rows t)"
  by (simp add: set_column_def case_prod_unfold comp_def)

lemma nrows_set_column: "nrows (set_column c f t) = nrows t"
  by (simp add: nrows_def set_column_def)

lemma nrows_keep_rows: "nrows (keep_rows p t) \<le> nrows t"
  by (simp add: nrows_def keep_rows_def)

lemma rows_dropna:
  "rows (dropna cs t) = filter (\<lambda>(i, r). list_all (\<lambda>c. get r c \<noteq> Null) cs) (rows t)"
  by (simp add: dropna_def keep_rows_def)

lemma columns_dropna: "columns (dropna cs t) = columns t"
  by (simp add: dropna_def keep_rows_def)

lemma rows_derive_bank_code: "map fst (rows (derive_bank_code d)) = map fst (rows d)"
  by (simp add: derive_bank_code_def labels_set_column)

lemma nrows_derive_bank_code: "nrows (derive_bank_code d) = nrows d"
  by (simp add: derive_bank_code_def nrows_set_column)

lemma columns_derive_bank_code:
  "columns (derive_bank_code d) =
     (if ''bank_code'' \<notin> set (columns d) \<and> ''bank_name'' \<in> set (columns d)
      then columns d @ [''bank_code''] else columns d)"
  by (simp add: derive_bank_code_def columns_set_column)

lemma set_critical_columns:
  "set (critical_columns d) = {''review_text'', ''rating'', ''bank_code''} \<inter> set (columns d)"
  by (auto simp: critical_columns_def)

lemma columns_fill_optional:
  "set (columns (fill_optional d)) = set (columns d) \<union> {''user_name'', ''thumbs_up'', ''reply_content''}"
  by (auto simp: fill_optional_def Let_def columns_set_column)

lemma nrows_fill_optional: "nrows (fill_optional d) = nrows d"
  by (simp add: fill_optional_def Let_def nrows_set_column)

lemma labels_fill_optional: "map fst (rows (fill_optional d)) = map fst (rows d)"
  by (simp add: fill_optional_def Let_def labels_set_column)

lemma list_all2_map_same:
  "(\<And>x. x \<in> set xs \<Longrightarrow> R x (f x)) \<Longrightarrow> list_all2 R xs (map f xs)"
  by (induction xs) auto

lemma rows_fill_optional:
  "list_all2 (\<lambda>(i, r) (j, r'). i = j
       \<and> get r' ''user_name'' = (if ''user_name'' \<in> set (columns d)
              then fillna (Str ''Anonymous'') (get r ''user_name'') else Str ''Anonymous'')
       \<and> get r' ''thumbs_up'' = (if ''thumbs_up'' \<in> set (columns d)
              then fillna (Num 0) (get r ''thumbs_up'') else Num 0)
       \<and> get r' ''reply_content'' = (if ''reply_content'' \<in> set (columns d)
              then fillna (Str '''') (get r ''reply_content'') else Str '''')
       \<and> (\<forall>c. c \<notin> {''user_name'', ''thumbs_up'', ''reply_content''} \<longrightarrow> get r' c = get r c))
     (rows d) (rows (fill_optional d))"
proof -
  define F where "F = (\<lambda>r::row.
     let r1 = put ''user_name'' (if ''user_name'' \<in> set (columns d)
                then fillna (Str ''Anonymous'') (get r ''user_name'') else Str ''Anonymous'') r;
         r2 = put ''thumbs_up'' (if ''thumbs_up'' \<in> set (columns d)
                then fillna (Num 0) (get r1 ''thumbs_up'') else Num 0) r1
     in put ''reply_content'' (if ''reply_content'' \<in> set (columns d)
                then fillna (Str '''') (get r2 ''reply_content'') else Str '''') r2)"
  have eq: "rows (fill_optional d) = map (\<lambda>(i, r). (i, F r)) (rows d)"
    by (simp add: fill_optional_def Let_def rows_set_column columns_set_column F_def
        case_prod_unfold comp_def)
  show ?thesis
    unfolding eq by (intro list_all2_map_same) (auto simp: F_def Let_def get_put)
qed

lemma rows_after_dropna:
  "rows (if critical_columns d \<noteq> [] then dropna (critical_columns d) d else d) =
     filter (\<lambda>(i, r). list_all (\<lambda>c. get r c \<noteq> Null) (critical_columns d)) (rows d)"
  by (cases "critical_columns d = []") (simp_all add: rows_dropna)

lemma columns_after_dropna:
  "columns (if critical_columns d \<noteq> [] then dropna (critical_columns d) d else d) = columns d"
  by (simp add: columns_dropna)

lemma length_filter_not:
  "length xs - length (filter p xs) = length (filter (\<lambda>x. \<not> p x) xs)"
  using sum_length_filter_compl[of p xs] by simp

text \<open>
  Claim C7, as amended. In \<^verbatim>\<open>handle_missing_values\<close> the critical columns are the ones of
  \<^verbatim>\<open>review_text\<close>, \<^verbatim>\<open>rating\<close> and \<^verbatim>\<open>bank_code\<close> that the frame holds after
  \<^verbatim>\<open>bank_code\<close> has been derived from \<^verbatim>\<open>bank_name\<close>. The rows that remain are exactly the
  rows without a missing value in a critical column, the number of the others is recorded in
  \<^verbatim>\<open>rows_removed_missing\<close>, no row is dropped when the input frame has none of the three
  columns and no \<^verbatim>\<open>bank_name\<close> column, and filling the optional columns keeps every
  remaining row: it sets \<^verbatim>\<open>user_name\<close> to \<^verbatim>\<open>Anonymous\<close>, \<^verbatim>\<open>thumbs_up\<close> to 0 and
  \<^verbatim>\<open>reply_content\<close> to the empty string where they are missing and changes no other cell.
\<close>

theorem handle_missing_values_critical:
  "let d1 = derive_bank_code (df s);
       crit = critical_columns d1;
       complete = (\<lambda>(i, r). list_all (\<lambda>c. get r c \<noteq> Null) crit);
       s' = handle_missing_values s
   in set crit = {''review_text'', ''rating'', ''bank_code''} \<inter> set (columns d1)
    \<and> map fst (rows d1) = map fst (rows (df s))
    \<and> map fst (rows (df s')) = map fst (filter complete (rows d1))
    \<and> rows_removed_missing (stats s') = Some (length (filter (\<lambda>x. \<not> complete x) (rows d1)))
    \<and> (crit = [] \<longrightarrow> map fst (rows (df s')) = map fst (rows (df s)))
    \<and> ((\<forall>c \<in> set [''review_text'', ''rating'', ''bank_code'', ''bank_name''].
            c \<notin> set (columns (df s))) \<longrightarrow> map fst (rows (df s')) = map fst (rows (df s)))
    \<and> list_all2 (\<lambda>(i, r) (j, r'). i = j
         \<and> get r' ''user_name'' = (if ''user_name'' \<in> set (columns (df s))
                then fillna (Str ''Anonymous'') (get r ''user_name'') else Str ''Anonymous'')
         \<and> get r' ''thumbs_up'' = (if ''thumbs_up'' \<in> set (columns (df s))
                then fillna (Num 0) (get r ''thumbs_up'') else Num 0)
         \<and> get r' ''reply_content'' = (if ''reply_content'' \<in> set (columns (df s))
                then fillna (Str '''') (get r ''reply_content'') else Str '''')
         \<and> (\<forall>c. c \<notin> {''user_name'', ''thumbs_up'', ''reply_content''} \<longrightarrow> get r' c = get r c))
       (filter complete (rows d1)) (rows (df s'))"
proof -
  define d1 where "d1 = derive_bank_code (df s)"
  define d2 where "d2 = (if critical_columns d1 \<noteq> [] then dropna (critical_columns d1) d1 else d1)"
  define complete where
    "complete = (\<lambda>(i::nat, r::row). list_all (\<lambda>c. get r c \<noteq> Null) (critical_columns d1))"
  have s': "df (handle_missing_values s) = fill_optional d2"
    by (simp add: handle_missing_values_def Let_def d1_def d2_def)
  have r2: "rows d2 = filter complete (rows d1)"
    unfolding d2_def complete_def by (rule rows_after_dropna)
  have c2: "columns d2 = columns d1"
    unfolding d2_def by (rule columns_after_dropna)
  have cols: "c \<in> set (columns d2) \<longleftrightarrow> c \<in> set (columns (df s))" if "c \<noteq> ''bank_code''" for c
    using that by (auto simp: c2 d1_def columns_derive_bank_code)
  have a: "set (critical_columns d1) = {''review_text'', ''rating'', ''bank_code''} \<inter> set (columns d1)"
    by (rule set_critical_columns)
  have b: "map fst (rows d1) = map fst (rows (df s))"
    unfolding d1_def by (rule rows_derive_bank_code)
  have c: "map fst (rows (df (handle_missing_values s))) = map fst (filter complete (rows d1))"
    by (simp add: s' labels_fill_optional r2)
  have d: "rows_removed_missing (stats (handle_missing_values s))
             = Some (length (filter (\<lambda>x. \<not> complete x) (rows d1)))"
    using r2
    by (simp add: handle_missing_values_def Let_def d1_def[symmetric] d2_def[symmetric]
        nrows_def length_filter_not)
  have e: "map fst (rows (df (handle_missing_values s))) = map fst (rows (df s))"
    if "critical_columns d1 = []"
    using that b by (simp add: c complete_def)
  have f: "list_all2 (\<lambda>(i, r) (j, r'). i = j
         \<and> get r' ''user_name'' = (if ''user_name'' \<in> set (columns (df s))
                then fillna (Str ''Anonymous'') (get r ''user_name'') else Str ''Anonymous'')
         \<and> get r' ''thumbs_up'' = (if ''thumbs_up'' \<in> set (columns (df s))
                then fillna (Num 0) (get r ''thumbs_up'') else Num 0)
         \<and> get r' ''reply_content'' = (if ''reply_content'' \<in> set (columns (df s))
                then fillna (Str '''') (get r ''reply_content'') else Str '''')
         \<and> (\<forall>c. c \<notin> {''user_name'', ''thumbs_up'', ''reply_content''} \<longrightarrow> get r' c = get r c))
       (filter complete (rows d1)) (rows (df (handle_missing_values s)))"
    using rows_fill_optional[of d2] by (simp add: s' r2 cols)
  have g: "map fst (rows (df (handle_missing_values s))) = map fst (rows (df s))"
    if "\<forall>c \<in> set [''review_text'', ''rating'', ''bank_code'', ''bank_name'']. c \<notin> set (columns (df s))"
  proof (rule e)
    have "columns d1 = columns (df s)"
      using that by (simp add: d1_def columns_derive_bank_code)
    then show "critical_columns d1 = []"
      using that by (simp add: critical_columns_def)
  qed
  show ?thesis
    unfolding Let_def d1_def[symmetric] complete_def[symmetric]
    using a b c d e f g by blast
qed

lemma missing_state_eval:
  "map fst (rows (df (handle_missing_values missing_state))) = [0, 3]"
  by (simp add: handle_missing_values_def missing_state_def eval_defs cong: let_weak_cong)

text \<open>
  The theorem of claim C7 at a sample state: the row without a review text and the row whose
  bank name is not in the name table are the ones removed.
\<close>

theorem handle_missing_values_critical_witness:
  "map fst (filter (\<lambda>(i, r). list_all (\<lambda>c. get r c \<noteq> Null)
                      (critical_columns (derive_bank_code (df missing_state))))
             (rows (derive_bank_code (df missing_state)))) = [0, 3]"
proof -
  have "map fst (rows (df (handle_missing_values missing_state))) =
        map fst (filter (\<lambda>(i, r). list_all (\<lambda>c. get r c \<noteq> Null)
                      (critical_columns (derive_bank_code (df missing_state))))
             (rows (derive_bank_code (df missing_state))))"
    using handle_missing_values_critical[of missing_state] unfolding Let_def by blast
  from trans[OF this[symmetric] missing_state_eval] show ?thesis .
qed

text \<open>
  Claim C7 as stated fails on a frame with a \<^verbatim>\<open>bank_name\<close> column and none of the three
  critical columns: \<^verbatim>\<open>bank_code\<close> is derived, and the row whose bank name is not in the
  name table is dropped and counted.
\<close>

theorem no_critical_column_counterexample:
  "''review_text'' \<notin> set (columns (df bank_name_only_state))
   \<and> ''rating'' \<notin> set (columns (df bank_name_only_state))
   \<and> ''bank_code'' \<notin> set (columns (df bank_name_only_state))
   \<and> map fst (rows (df bank_name_only_state)) = [0, 1]
   \<and> map fst (rows (df (handle_missing_values bank_name_only_state))) = [1]
   \<and> rows_removed_missing (stats (handle_missing_values bank_name_only_state)) = Some 1"
  by (simp add: handle_missing_values_def bank_name_only_state_def eval_defs cong: let_weak_cong)

subsection \<open>Dates\<close>

lemma pd_to_datetime_cases: "pd_to_datetime f c = Null \<or> (\<exists>ts. pd_to_datetime f c = Stamp ts)"
  by (auto simp: pd_to_datetime_def split: cell.splits option.splits)

lemma normalize_dates_absent:
  "''review_date'' \<notin> set (columns (df s)) \<Longrightarrow> normalize_dates P s = s"
  by (simp add: normalize_dates_def)

lemma normalize_dates_raises:
  "to_datetime P (column_values (df s) ''review_date'') = Raises \<Longrightarrow> normalize_dates P s = s"
  by (simp add: normalize_dates_def Let_def)

lemma normalize_dates_stats: "stats (normalize_dates P s) = stats s"
  by (simp add: normalize_dates_def Let_def split: datetime_result.splits)

lemma normalize_dates_objects:
  assumes "''review_date'' \<in> set (columns (df s))"
    and "to_datetime P (column_values (df s) ''review_date'') = Objects g"
  shows "columns (df (normalize_dates P s)) = columns (df s)"
    and "rows (df (normalize_dates P s)) =
           filter (\<lambda>(i, r). get r ''review_date'' \<noteq> Null)
             (map (\<lambda>(i, r). (i, put ''review_date'' (g (get r ''review_date'')) r)) (rows (df s)))"
  using assms
  by (simp_all add: normalize_dates_def Let_def columns_set_column columns_dropna rows_set_column
      rows_dropna)

lemma normalize_dates_columns:
  assumes "''review_date'' \<in> set (columns (df s))"
    and "to_datetime P (column_values (df s) ''review_date'') = Datetimes f"
  shows "set (columns (df (normalize_dates P s)))
           = set (columns (df s)) \<union> {''review_year'', ''review_month''}"
  using assms
  by (auto simp: normalize_dates_def Let_def columns_set_column columns_dropna)

lemma dt_year_of_dt_date:
  "dt_year (date_to_datetime (dt_date p)) =
     (case p of Stamp ts \<Rightarrow> Num (of_int (year (on_date ts))) | _ \<Rightarrow> Null)"
  by (simp add: dt_year_def dt_date_def date_to_datetime_def midnight_def split: cell.splits)

lemma dt_month_of_dt_date:
  "dt_month (date_to_datetime (dt_date p)) =
     (case p of Stamp ts \<Rightarrow> Num (of_nat (month (on_date ts))) | _ \<Rightarrow> Null)"
  by (simp add: dt_month_def dt_date_def date_to_datetime_def midnight_def split: cell.splits)

lemma normalize_dates_rows:
  assumes "''review_date'' \<in> set (columns (df s))"
    and "to_datetime P (column_values (df s) ''review_date'') = Datetimes f"
  shows "rows (df (normalize_dates P s)) =
    map (\<lambda>(i, r). (i,
           let p = pd_to_datetime f (get r ''review_date'')
           in put ''review_month'' (case p of Stamp ts \<Rightarrow> Num (of_nat (month (on_date ts))) | _ \<Rightarrow> Null)
                (put ''review_year'' (case p of Stamp ts \<Rightarrow> Num (of_int (year (on_date ts))) | _ \<Rightarrow> Null)
                   (put ''review_date'' (dt_date p) (put ''review_date'' p r)))))
      (filter (\<lambda>(i, r). pd_to_datetime f (get r ''review_date'') \<noteq> Null) (rows (df s)))"
  using assms
  by (simp add: normalize_dates_def Let_def rows_set_column rows_dropna filter_map comp_def
      case_prod_unfold get_put dt_year_of_dt_date dt_month_of_dt_date)

text \<open>
  Claim C8, as amended. Without a \<^verbatim>\<open>review_date\<close> column \<^verbatim>\<open>normalize_dates\<close> changes
  nothing. With one, when \<^verbatim>\<open>pd.to_datetime\<close> returns a datetime column, the rows that remain
  are exactly the rows whose date parses; each of them holds the calendar date of the parsed
  timestamp (the time of day is dropped), its year in \<^verbatim>\<open>review_year\<close> and its month in
  \<^verbatim>\<open>review_month\<close>, and its other cells are unchanged; the two derived columns are columns
  of the frame. When the conversion raises, the exception is caught: the state is unchanged
  if \<^verbatim>\<open>pd.to_datetime\<close> itself raised, and if \<^verbatim>\<open>.dt\<close> raised on the column it returned, the
  rows whose new value is missing are removed and no column is added. The statistics are
  unchanged in every case.
\<close>

theorem normalize_dates_parsed:
  "let s' = normalize_dates P s;
       result = to_datetime P (column_values (df s) ''review_date'')
   in stats s' = stats s
    \<and> (''review_date'' \<notin> set (columns (df s)) \<longrightarrow> s' = s)
    \<and> (''review_date'' \<in> set (columns (df s)) \<longrightarrow>
         (result = Raises \<longrightarrow> s' = s)
       \<and> (\<forall>g. result = Objects g \<longrightarrow>
             columns (df s') = columns (df s)
           \<and> rows (df s') =
               filter (\<lambda>(i, r). get r ''review_date'' \<noteq> Null)
                 (map (\<lambda>(i, r). (i, put ''review_date'' (g (get r ''review_date'')) r)) (rows (df s))))
       \<and> (\<forall>f. result = Datetimes f \<longrightarrow>
             set (columns (df s')) = set (columns (df s)) \<union> {''review_year'', ''review_month''}
           \<and> list_all2 (\<lambda>(i, r) (j, r'). i = j
                \<and> (\<exists>ts. pd_to_datetime f (get r ''review_date'') = Stamp ts
                       \<and> get r' ''review_date'' = Date (on_date ts)
                       \<and> get r' ''review_year'' = Num (of_int (year (on_date ts)))
                       \<and> get r' ''review_month'' = Num (of_nat (month (on_date ts))))
                \<and> (\<forall>c. c \<notin> {''review_date'', ''review_year'', ''review_month''}
                       \<longrightarrow> get r' c = get r c))
               (filter (\<lambda>(i, r). pd_to_datetime f (get r ''review_date'') \<noteq> Null) (rows (df s)))
               (rows (df s'))))"
proof -
  have stamp: "\<exists>ts. pd_to_datetime f c = Stamp ts" if "pd_to_datetime f c \<noteq> Null" for f c
    using that pd_to_datetime_cases[of f c] by auto
  have rows: "list_all2 (\<lambda>(i, r) (j, r'). i = j
                \<and> (\<exists>ts. pd_to_datetime f (get r ''review_date'') = Stamp ts
                       \<and> get r' ''review_date'' = Date (on_date ts)
                       \<and> get r' ''review_year'' = Num (of_int (year (on_date ts)))
                       \<and> get r' ''review_month'' = Num (of_nat (month (on_date ts))))
                \<and> (\<forall>c. c \<notin> {''review_date'', ''review_year'', ''review_month''}
                       \<longrightarrow> get r' c = get r c))
               (filter (\<lambda>(i, r). pd_to_datetime f (get r ''review_date'') \<noteq> Null) (rows (df s)))
               (rows (df (normalize_dates P s)))"
    if "''review_date'' \<in> set (columns (df s))"
      and "to_datetime P (column_values (df s) ''review_date'') = Datetimes f" for f
    unfolding normalize_dates_rows[OF that] Let_def
    by (intro list_all2_map_same) (auto simp: get_put dt_date_def dest!: stamp)
  have D: "\<forall>g. to_datetime P (column_values (df s) ''review_date'') = Objects g \<longrightarrow>
             columns (df (normalize_dates P s)) = columns (df s)
           \<and> rows (df (normalize_dates P s)) =
               filter (\<lambda>(i, r). get r ''review_date'' \<noteq> Null)
                 (map (\<lambda>(i, r). (i, put ''review_date'' (g (get r ''review_date'')) r)) (rows (df s)))"
    if "''review_date'' \<in> set (columns (df s))"
    using normalize_dates_objects[OF that] by simp
  have E: "\<forall>f. to_datetime P (column_values (df s) ''review_date'') = Datetimes f \<longrightarrow>
             set (columns (df (normalize_dates P s)))
               = set (columns (df s)) \<union> {''review_year'', ''review_month''}
           \<and> list_all2 (\<lambda>(i, r) (j, r'). i = j
                \<and> (\<exists>ts. pd_to_datetime f (get r ''review_date'') = Stamp ts
                       \<and> get r' ''review_date'' = Date (on_date ts)
                       \<and> get r' ''review_year'' = Num (of_int (year (on_date ts)))
                       \<and> get r' ''review_month'' = Num (of_nat (month (on_date ts))))
                \<and> (\<forall>c. c \<notin> {''review_date'', ''review_year'', ''review_month''}
                       \<longrightarrow> get r' c = get r c))
               (filter (\<lambda>(i, r). pd_to_datetime f (get r ''review_date'') \<noteq> Null) (rows (df s)))
               (rows (df (normalize_dates P s)))"
    if "''review_date'' \<in> set (columns (df s))"
  proof (intro allI impI conjI)
    fix f assume f: "to_datetime P (column_values (df s) ''review_date'') = Datetimes f"
    show "set (columns (df (normalize_dates P s)))
               = set (columns (df s)) \<union> {''review_year'', ''review_month''}"
      by (rule normalize_dates_columns[OF that f])
    show "list_all2 (\<lambda>(i, r) (j, r'). i = j
                \<and> (\<exists>ts. pd_to_datetime f (get r ''review_date'') = Stamp ts
                       \<and> get r' ''review_date'' = Date (on_date ts)
                       \<and> get r' ''review_year'' = Num (of_int (year (on_date ts)))
                       \<and> get r' ''review_month'' = Num (of_nat (month (on_date ts))))
                \<and> (\<forall>c. c \<notin> {''review_date'', ''review_year'', ''review_month''}
                       \<longrightarrow> get r' c = get r c))
               (filter (\<lambda>(i, r). pd_to_datetime f (get r ''review_date'') \<noteq> Null) (rows (df s)))
               (rows (df (normalize_dates P s)))"
      by (rule rows[OF that f])
  qed
  show ?thesis
    unfolding Let_def
    apply (intro conjI impI)
    subgoal by (rule normalize_dates_stats)
    subgoal by (rule normalize_dates_absent)
    subgoal by (rule normalize_dates_raises)
    subgoal by (rule D)
    subgoal by (rule E)
    done
qed

lemma dates_state_eval:
  "rows (df (normalize_dates sample_pandas dates_state)) =
     [(0, [(''review_text'', Str ''good''),
           (''review_date'', Date \<lparr>year = 2024, month = 1, day = 5\<rparr>),
           (''review_year'', Num 2024), (''review_month'', Num 1)]),
      (2, [(''review_text'', Str ''fine''),
           (''review_date'', Date \<lparr>year = 2024, month = 2, day = 1\<rparr>),
           (''review_year'', Num 2024), (''review_month'', Num 2)])]"
  by (simp add: normalize_dates_def dates_state_def eval_defs cong: let_weak_cong)

lemma dates_state_result:
  "to_datetime sample_pandas (column_values (df dates_state) ''review_date'') = Datetimes sample_date"
  by (simp add: dates_state_def eval_defs)

text \<open>
  The theorem of claim C8 at a sample state with a \<^verbatim>\<open>review_date\<close> column whose dates have
  one format: the row with the date \<^verbatim>\<open>yesterday\<close> is removed.
\<close>

theorem normalize_dates_parsed_witness:
  "''review_date'' \<in> set (columns (df dates_state))
   \<and> to_datetime sample_pandas (column_values (df dates_state) ''review_date'') = Datetimes sample_date
   \<and> stats (normalize_dates sample_pandas dates_state) = stats dates_state
   \<and> set (columns (df (normalize_dates sample_pandas dates_state)))
       = set (columns (df dates_state)) \<union> {''review_year'', ''review_month''}
   \<and> rows (df (normalize_dates sample_pandas dates_state)) =
     [(0, [(''review_text'', Str ''good''),
           (''review_date'', Date \<lparr>year = 2024, month = 1, day = 5\<rparr>),
           (''review_year'', Num 2024), (''review_month'', Num 1)]),
      (2, [(''review_text'', Str ''fine''),
           (''review_date'', Date \<lparr>year = 2024, month = 2, day = 1\<rparr>),
           (''review_year'', Num 2024), (''review_month'', Num 2)])]"
proof -
  have h: "''review_date'' \<in> set (columns (df dates_state))"
    by (simp add: dates_state_def read_csv_def Let_def)
  have "stats (normalize_dates sample_pandas dates_state) = stats dates_state
   \<and> set (columns (df (normalize_dates sample_pandas dates_state)))
       = set (columns (df dates_state)) \<union> {''review_year'', ''review_month''}"
    using normalize_dates_parsed[of sample_pandas dates_state] h dates_state_result
    unfolding Let_def by blast
  with h dates_state_result dates_state_eval show ?thesis by blast
qed

text \<open>
  Claim C8 as stated fails on a frame whose dates have two UTC offsets: the conversion
  raises inside the \<^verbatim>\<open>try\<close> block, the exception is caught, and the frame is left with the
  dates not truncated and without \<^verbatim>\<open>review_year\<close> and \<^verbatim>\<open>review_month\<close>.
\<close>

theorem mixed_offsets_counterexample:
  "''review_date'' \<in> set (columns (df offsets_state))
   \<and> columns (df (normalize_dates sample_pandas offsets_state)) = [''review_text'', ''review_date'']
   \<and> get (snd (hd (rows (df (normalize_dates sample_pandas offsets_state))))) ''review_year'' = Null
   \<and> get (snd (hd (rows (df (normalize_dates sample_pandas offsets_state))))) ''review_date''
       = Stamp \<lparr>on_date = \<lparr>year = 2024, month = 1, day = 5\<rparr>, time_of_day = 37800\<rparr>"
  by (simp add: normalize_dates_def offsets_state_def eval_defs cong: let_weak_cong)

end
